theory Spec2Isabelle
  imports Main
begin

section \<open>Go strings\<close>

text \<open>
  A Go string is a sequence of bytes, here a \<^typ>\<open>string\<close>. The functions of package
  \<^verbatim>\<open>strings\<close> that \<^verbatim>\<open>node.go\<close> calls are written out: \<^verbatim>\<open>HasPrefix\<close>,
  \<^verbatim>\<open>TrimPrefix\<close>, \<^verbatim>\<open>Index\<close>, \<^verbatim>\<open>Contains\<close> and \<^verbatim>\<open>SplitN\<close>.
\<close>

definition HasPrefix :: "string \<Rightarrow> string \<Rightarrow> bool" where
  "HasPrefix s p = (length p \<le> length s \<and> take (length p) s = p)"

definition TrimPrefix :: "string \<Rightarrow> string \<Rightarrow> string" where
  "TrimPrefix s p = (if HasPrefix s p then drop (length p) s else s)"

text \<open>\<^verbatim>\<open>Index\<close>: the position of the first occurrence of \<open>sep\<close>, \<open>None\<close> for Go's \<open>-1\<close>.\<close>

fun Index :: "string \<Rightarrow> string \<Rightarrow> nat option" where
  "Index [] sep = (if sep = [] then Some 0 else None)"
| "Index (c # t) sep =
     (if HasPrefix (c # t) sep then Some 0 else map_option Suc (Index t sep))"

definition Contains :: "string \<Rightarrow> string \<Rightarrow> bool" where
  "Contains s sep = (Index s sep \<noteq> None)"

text \<open>
  With an empty separator \<^verbatim>\<open>SplitN\<close> cuts the string into UTF-8 sequences
  (\<^verbatim>\<open>explode\<close>), so the length of the first sequence is needed:
  \<^verbatim>\<open>utf8.DecodeRuneInString\<close> returns 1 for an ASCII byte and for an invalid or
  truncated encoding, and 2 to 4 for a well-formed multi-byte sequence.
\<close>

definition inRange :: "nat \<Rightarrow> nat \<Rightarrow> char \<Rightarrow> bool" where
  "inRange lo hi c = (lo \<le> of_char c \<and> (of_char c :: nat) \<le> hi)"

definition multiByte :: "nat \<Rightarrow> nat \<Rightarrow> nat \<Rightarrow> string \<Rightarrow> nat" where
  "multiByte sz lo hi rest =
     (if Suc (length rest) < sz then 1
      else case rest of
          [] \<Rightarrow> 1
        | s1 # r1 \<Rightarrow>
            if \<not> inRange lo hi s1 then 1
            else if sz \<le> 2 then 2
            else (case r1 of
                [] \<Rightarrow> 1
              | s2 # r2 \<Rightarrow>
                  if \<not> inRange 0x80 0xBF s2 then 1
                  else if sz \<le> 3 then 3
                  else (case r2 of
                      [] \<Rightarrow> 1
                    | s3 # _ \<Rightarrow> if \<not> inRange 0x80 0xBF s3 then 1 else 4)))"

definition runeSize :: "string \<Rightarrow> nat" where
  "runeSize s =
     (case s of
        [] \<Rightarrow> 0
      | s0 # rest \<Rightarrow>
          if inRange 0x00 0x7F s0 then 1
          else if inRange 0x80 0xC1 s0 then 1
          else if inRange 0xC2 0xDF s0 then multiByte 2 0x80 0xBF rest
          else if inRange 0xE0 0xE0 s0 then multiByte 3 0xA0 0xBF rest
          else if inRange 0xE1 0xEC s0 then multiByte 3 0x80 0xBF rest
          else if inRange 0xED 0xED s0 then multiByte 3 0x80 0x9F rest
          else if inRange 0xEE 0xEF s0 then multiByte 3 0x80 0xBF rest
          else if inRange 0xF0 0xF0 s0 then multiByte 4 0x90 0xBF rest
          else if inRange 0xF1 0xF3 s0 then multiByte 4 0x80 0xBF rest
          else if inRange 0xF4 0xF4 s0 then multiByte 4 0x80 0x8F rest
          else 1)"

text \<open>
  \<^verbatim>\<open>utf8.RuneCountInString\<close>: the number of sequences. The first argument counts the
  bytes of the current sequence that are still to be skipped.
\<close>

fun runeCount :: "nat \<Rightarrow> string \<Rightarrow> nat" where
  "runeCount skip [] = 0"
| "runeCount (Suc skip) (c # t) = runeCount skip t"
| "runeCount 0 (c # t) = Suc (runeCount (runeSize (c # t) - 1) t)"

definition RuneCountInString :: "string \<Rightarrow> nat" where
  "RuneCountInString s = runeCount 0 s"

text \<open>
  \<^verbatim>\<open>explode(s, n)\<close> for \<open>n \<ge> 0\<close>: at most \<open>n\<close> pieces, one UTF-8 sequence each, the
  last piece taking the rest; invalid bytes are sliced one by one (older releases of Go
  put the encoding of U+FFFD in the place of such a byte). The empty string has no piece.
\<close>

fun explodeLoop :: "string \<Rightarrow> nat \<Rightarrow> string list" where
  "explodeLoop s 0 = []"
| "explodeLoop s (Suc 0) = [s]"
| "explodeLoop s (Suc (Suc k)) =
     take (runeSize s) s # explodeLoop (drop (runeSize s) s) (Suc k)"

definition explode :: "string \<Rightarrow> nat \<Rightarrow> string list" where
  "explode s n = explodeLoop s (if RuneCountInString s < n then RuneCountInString s else n)"

text \<open>
  The loop of \<^verbatim>\<open>genSplit\<close> for a non-empty separator: at most \<open>k\<close> cuts, each at the
  first occurrence of the separator in what is left.
\<close>

fun genSplitLoop :: "string \<Rightarrow> string \<Rightarrow> nat \<Rightarrow> string list" where
  "genSplitLoop s sep 0 = [s]"
| "genSplitLoop s sep (Suc k) =
     (case Index s sep of
        None \<Rightarrow> [s]
      | Some m \<Rightarrow> take m s # genSplitLoop (drop (m + length sep) s) sep k)"

text \<open>
  \<^verbatim>\<open>SplitN(s, sep, n)\<close> for a count \<open>n \<ge> 0\<close> (the source passes the constant 2):
  \<open>n = 0\<close> gives no piece at all.
\<close>

definition SplitN :: "string \<Rightarrow> string \<Rightarrow> nat \<Rightarrow> string list" where
  "SplitN s sep n =
     (if n = 0 then []
      else if sep = [] then explode s n
      else genSplitLoop s sep (n - 1))"

section \<open>Configuration\<close>

text \<open>
  A Go panic is a value: a function that can panic returns \<open>panic + 'a\<close>, with \<open>Inl\<close>
  for the panic.
\<close>

datatype panic = IndexOutOfRange | CloseOfClosedChannel

text \<open>
  Modelled from the spec: the type \<^verbatim>\<open>Config\<close>, its method \<^verbatim>\<open>channelOpts\<close> and the
  type of channel options are declared outside \<^verbatim>\<open>node.go\<close>. The record has the fields
  that the functions below read, named as \<^verbatim>\<open>node.go\<close> names them; the options are a
  type parameter, and the method, which maps a namespace name to its options, is a field,
  with \<open>None\<close> for Go's \<open>ok = false\<close>.
\<close>

record 'o Config =
  PrivateChannelPrefix :: string
  NamespaceChannelBoundary :: string
  channelOpts :: "string \<Rightarrow> 'o option"

section \<open>Messages\<close>

text \<open>
  Go's \<^verbatim>\<open>error\<close> results are \<open>error option\<close>, \<open>None\<close> for \<^verbatim>\<open>nil\<close>. The three
  named errors are the ones \<^verbatim>\<open>node.go\<close> returns itself; \<open>ErrOther\<close> stands for any
  error a collaborator hands back.
\<close>

datatype error = ErrBadRequest | ErrNamespaceNotFound | ErrInternalServerError | ErrOther string

text \<open>
  Modelled from the spec: the message types of the packages \<^verbatim>\<open>proto\<close> and
  \<^verbatim>\<open>control\<close> are declared outside \<^verbatim>\<open>node.go\<close>. The records have the fields that
  \<^verbatim>\<open>node.go\<close> reads and writes and that the wire format of the specification lists:
  a command is a uid, a method and opaque parameters, an unsubscribe payload is a user and
  a channel, a disconnect payload is a user. A client is a handle, identified by its id.
\<close>

type_synonym client = string

record Publication =
  UID :: string
  Data :: string

record control_Command =
  CmdUID :: string
  Method :: string
  Params :: string

record control_Node =
  NodeUID :: string
  NodeName :: string
  NodeVersion :: string
  NodeStartedAt :: int
  NodeMetricsUpdateInterval :: nat
  NodeMetrics :: "(string \<times> int) list"

record control_Unsubscribe =
  User :: string
  Channel :: string

record control_Disconnect =
  DisconnectUser :: string

record proto_Disconnect =
  Reason :: string
  Reconnect :: bool

section \<open>Collaborators\<close>

text \<open>
  The node reaches its hub, its engine, its clients, the control codec, the node registry,
  the metrics registry and the id generator through interfaces and packages outside
  \<^verbatim>\<open>node.go\<close>. Every call the node makes to one of them is recorded, in order, in
  the trace of the node; what the collaborator answers is given by an environment, which
  sees the trace up to the call, so an answer may depend on everything that happened
  before. A future returned by the engine is modelled by the error it resolves to.
  \<open>GoClientClose\<close> records that a goroutine closing the client was started.
  Logging is left out.
\<close>

datatype 'o call =
    CountersInc string
  | DecodeNode string
  | DecodeUnsubscribe string
  | DecodeDisconnect string
  | EncodeUnsubscribe control_Unsubscribe
  | EncodeDisconnect control_Disconnect
  | NodesAdd control_Node
  | HubAddSub string client
  | HubRemoveSub string client
  | HubUserConnections string
  | HubShutdown
  | ClientChannels client
  | ClientUnsubscribe client string
  | GoClientClose client proto_Disconnect
  | NuidNext
  | EnginePublish string Publication 'o
  | EnginePublishControl control_Command
  | EngineSubscribe string
  | EngineUnsubscribe string

record 'o env =
  decodeNode :: "'o call list \<Rightarrow> string \<Rightarrow> error + control_Node"
  decodeUnsubscribe :: "'o call list \<Rightarrow> string \<Rightarrow> error + control_Unsubscribe"
  decodeDisconnect :: "'o call list \<Rightarrow> string \<Rightarrow> error + control_Disconnect"
  encodeUnsubscribe :: "'o call list \<Rightarrow> control_Unsubscribe \<Rightarrow> string \<times> error option"
  encodeDisconnect :: "'o call list \<Rightarrow> control_Disconnect \<Rightarrow> string \<times> error option"
  hubAddSub :: "'o call list \<Rightarrow> string \<Rightarrow> client \<Rightarrow> bool \<times> error option"
  hubRemoveSub :: "'o call list \<Rightarrow> string \<Rightarrow> client \<Rightarrow> bool \<times> error option"
  hubUserConnections :: "'o call list \<Rightarrow> string \<Rightarrow> client list"
  hubShutdown :: "'o call list \<Rightarrow> error option"
  clientChannels :: "'o call list \<Rightarrow> client \<Rightarrow> string list"
  clientUnsubscribe :: "'o call list \<Rightarrow> client \<Rightarrow> string \<Rightarrow> error option"
  nuidNext :: "'o call list \<Rightarrow> string"
  enginePublish :: "'o call list \<Rightarrow> string \<Rightarrow> Publication \<Rightarrow> 'o \<Rightarrow> error option"
  enginePublishControl :: "'o call list \<Rightarrow> control_Command \<Rightarrow> error option"
  engineSubscribe :: "'o call list \<Rightarrow> string \<Rightarrow> error option"
  engineUnsubscribe :: "'o call list \<Rightarrow> string \<Rightarrow> error option"

section \<open>The node\<close>

text \<open>
  The fields of \<^verbatim>\<open>Node\<close> that the operations below read or write, and the trace.
  \<open>shutdownCh\<close> is \<open>True\<close> once the channel is closed.
\<close>

record 'o node =
  uid :: string
  config :: "'o Config"
  shutdown :: bool
  shutdownCh :: bool
  trace :: "'o call list"

definition invoke :: "'o call \<Rightarrow> 'o node \<Rightarrow> 'o node" where
  "invoke c n = n\<lparr>trace := trace n @ [c]\<rparr>"

subsection \<open>Channel names\<close>

definition namespaceName :: "'o node \<Rightarrow> string \<Rightarrow> panic + string" where
  "namespaceName n ch =
     (let cTrim = TrimPrefix ch (PrivateChannelPrefix (config n)) in
      if Contains cTrim (NamespaceChannelBoundary (config n))
      then (case SplitN cTrim (NamespaceChannelBoundary (config n)) 2 of
              [] \<Rightarrow> Inl IndexOutOfRange
            | p # _ \<Rightarrow> Inr p)
      else Inr [])"

text \<open>
  \<^verbatim>\<open>ChannelOpts\<close> resolves the options of a channel from the namespace of its name. The
  read lock it takes has no counterpart here: operations are modelled one at a time.
\<close>

definition ChannelOpts :: "'o node \<Rightarrow> string \<Rightarrow> panic + 'o option" where
  "ChannelOpts n ch =
     (case namespaceName n ch of
        Inl p \<Rightarrow> Inl p
      | Inr ns \<Rightarrow> Inr (channelOpts (config n) ns))"

subsection \<open>Shutdown\<close>

text \<open>Closing a channel that is closed already panics in Go.\<close>

definition Shutdown :: "'o env \<Rightarrow> 'o node \<Rightarrow> panic + (error option \<times> 'o node)" where
  "Shutdown env n =
     (if shutdown n then Inr (None, n)
      else if shutdownCh n then Inl CloseOfClosedChannel
      else (let n1 = n\<lparr>shutdown := True, shutdownCh := True\<rparr>
            in Inr (hubShutdown env (trace n1), invoke HubShutdown n1)))"

subsection \<open>Local unsubscribe and disconnect\<close>

fun unsubscribeChannels ::
  "'o env \<Rightarrow> client \<Rightarrow> string list \<Rightarrow> 'o node \<Rightarrow> error option \<times> 'o node" where
  "unsubscribeChannels env c [] n = (None, n)"
| "unsubscribeChannels env c (channel # rest) n =
     (let err = clientUnsubscribe env (trace n) c channel;
          n1 = invoke (ClientUnsubscribe c channel) n
      in if err \<noteq> None then (err, n1) else unsubscribeChannels env c rest n1)"

text \<open>The channels to leave on one connection: all of them for an empty channel name.\<close>

definition channelsOf :: "'o env \<Rightarrow> string \<Rightarrow> client \<Rightarrow> 'o node \<Rightarrow> string list \<times> 'o node" where
  "channelsOf env ch c n =
     (if ch = [] then (clientChannels env (trace n) c, invoke (ClientChannels c) n)
      else ([ch], n))"

fun unsubscribeConnections ::
  "'o env \<Rightarrow> string \<Rightarrow> client list \<Rightarrow> 'o node \<Rightarrow> error option \<times> 'o node" where
  "unsubscribeConnections env ch [] n = (None, n)"
| "unsubscribeConnections env ch (c # cs) n =
     (let (channels, n1) = channelsOf env ch c n;
          (err, n2) = unsubscribeChannels env c channels n1
      in if err \<noteq> None then (err, n2) else unsubscribeConnections env ch cs n2)"

definition unsubscribeUser :: "'o env \<Rightarrow> string \<Rightarrow> string \<Rightarrow> 'o node \<Rightarrow> error option \<times> 'o node" where
  "unsubscribeUser env user ch n =
     (let userConnections = hubUserConnections env (trace n) user;
          n1 = invoke (HubUserConnections user) n
      in unsubscribeConnections env ch userConnections n1)"

fun closeConnections :: "proto_Disconnect \<Rightarrow> client list \<Rightarrow> 'o node \<Rightarrow> 'o node" where
  "closeConnections advice [] n = n"
| "closeConnections advice (c # cs) n = closeConnections advice cs (invoke (GoClientClose c advice) n)"

definition disconnectUser :: "'o env \<Rightarrow> string \<Rightarrow> bool \<Rightarrow> 'o node \<Rightarrow> error option \<times> 'o node" where
  "disconnectUser env user reconnect n =
     (let userConnections = hubUserConnections env (trace n) user;
          n1 = invoke (HubUserConnections user) n;
          advice = \<lparr>Reason = ''disconnect'', Reconnect = reconnect\<rparr>
      in (None, closeConnections advice userConnections n1))"

subsection \<open>Control commands\<close>

definition nodeCmd :: "control_Node \<Rightarrow> 'o node \<Rightarrow> error option \<times> 'o node" where
  "nodeCmd nd n = (None, invoke (NodesAdd nd) n)"

definition HandleControl :: "'o env \<Rightarrow> control_Command \<Rightarrow> 'o node \<Rightarrow> error option \<times> 'o node" where
  "HandleControl env cmd n =
     (let n1 = invoke (CountersInc ''node_num_control_received'') n in
      if CmdUID cmd = uid n1 then (None, n1)
      else (let method = Method cmd; params = Params cmd in
        if method = ''node'' then
          (case decodeNode env (trace n1) params of
             Inl err \<Rightarrow> (Some ErrBadRequest, invoke (DecodeNode params) n1)
           | Inr c \<Rightarrow> nodeCmd c (invoke (DecodeNode params) n1))
        else if method = ''unsubscribe'' then
          (case decodeUnsubscribe env (trace n1) params of
             Inl err \<Rightarrow> (Some ErrBadRequest, invoke (DecodeUnsubscribe params) n1)
           | Inr c \<Rightarrow> unsubscribeUser env (User c) (Channel c) (invoke (DecodeUnsubscribe params) n1))
        else if method = ''disconnect'' then
          (case decodeDisconnect env (trace n1) params of
             Inl err \<Rightarrow> (Some ErrBadRequest, invoke (DecodeDisconnect params) n1)
           | Inr c \<Rightarrow> disconnectUser env (DisconnectUser c) False (invoke (DecodeDisconnect params) n1))
        else (Some ErrBadRequest, n1)))"

definition publishControl :: "'o env \<Rightarrow> control_Command \<Rightarrow> 'o node \<Rightarrow> error option \<times> 'o node" where
  "publishControl env msg n =
     (let n1 = invoke (CountersInc ''node_num_control_sent'') n
      in (enginePublishControl env (trace n1) msg, invoke (EnginePublishControl msg) n1))"

text \<open>
  \<^verbatim>\<open>pubUnsubscribe\<close> fills in the user only, so the channel of the payload is Go's
  zero value, the empty string; the error of the encoder is dropped.
\<close>

definition pubUnsubscribe :: "'o env \<Rightarrow> string \<Rightarrow> string \<Rightarrow> 'o node \<Rightarrow> error option \<times> 'o node" where
  "pubUnsubscribe env user ch n =
     (let unsubscribe = \<lparr>User = user, Channel = []\<rparr>;
          params = fst (encodeUnsubscribe env (trace n) unsubscribe);
          n1 = invoke (EncodeUnsubscribe unsubscribe) n;
          cmd = \<lparr>CmdUID = uid n1, Method = ''unsubscribe'', Params = params\<rparr>
      in publishControl env cmd n1)"

definition pubDisconnect :: "'o env \<Rightarrow> string \<Rightarrow> bool \<Rightarrow> 'o node \<Rightarrow> error option \<times> 'o node" where
  "pubDisconnect env user reconnect n =
     (let disconnect = \<lparr>DisconnectUser = user\<rparr>;
          params = fst (encodeDisconnect env (trace n) disconnect);
          n1 = invoke (EncodeDisconnect disconnect) n;
          cmd = \<lparr>CmdUID = uid n1, Method = ''unsubscribe'', Params = params\<rparr>
      in publishControl env cmd n1)"

subsection \<open>Publishing\<close>

text \<open>\<^verbatim>\<open>makeErrChan\<close> gives a future that is resolved already.\<close>

definition makeErrChan :: "error option \<Rightarrow> error option" where
  "makeErrChan err = err"

text \<open>
  \<^verbatim>\<open>Publish\<close> writes the uid through the pointer it was given, so the publication is
  returned with the future and the node.
\<close>

definition Publish ::
  "'o env \<Rightarrow> string \<Rightarrow> Publication \<Rightarrow> 'o option \<Rightarrow> 'o node
     \<Rightarrow> panic + (error option \<times> Publication \<times> 'o node)" where
  "Publish env ch pub opts n =
     (case (case opts of None \<Rightarrow> ChannelOpts n ch | Some given \<Rightarrow> Inr (Some given)) of
        Inl p \<Rightarrow> Inl p
      | Inr None \<Rightarrow> Inr (makeErrChan (Some ErrNamespaceNotFound), pub, n)
      | Inr (Some opts1) \<Rightarrow>
          (let n1 = invoke (CountersInc ''node_num_publication_sent'') n;
               (pub1, n2) = (if UID pub = [] then (pub\<lparr>UID := nuidNext env (trace n1)\<rparr>, invoke NuidNext n1)
                             else (pub, n1))
           in Inr (enginePublish env (trace n2) ch pub1 opts1, pub1,
                   invoke (EnginePublish ch pub1 opts1) n2)))"

subsection \<open>Subscriptions\<close>

definition AddSubscription :: "'o env \<Rightarrow> string \<Rightarrow> client \<Rightarrow> 'o node \<Rightarrow> error option \<times> 'o node" where
  "AddSubscription env ch c n =
     (let n1 = invoke (CountersInc ''node_num_add_client_sub'') n;
          (first, err) = hubAddSub env (trace n1) ch c;
          n2 = invoke (HubAddSub ch c) n1
      in if err \<noteq> None then (err, n2)
         else if first then (engineSubscribe env (trace n2) ch, invoke (EngineSubscribe ch) n2)
         else (None, n2))"

definition RemoveSubscription :: "'o env \<Rightarrow> string \<Rightarrow> client \<Rightarrow> 'o node \<Rightarrow> error option \<times> 'o node" where
  "RemoveSubscription env ch c n =
     (let n1 = invoke (CountersInc ''node_num_remove_client_sub'') n;
          (empty, err) = hubRemoveSub env (trace n1) ch c;
          n2 = invoke (HubRemoveSub ch c) n1
      in if err \<noteq> None then (err, n2)
         else if empty then (engineUnsubscribe env (trace n2) ch, invoke (EngineUnsubscribe ch) n2)
         else (None, n2))"

subsection \<open>Cluster-wide unsubscribe and disconnect\<close>

definition Unsubscribe :: "'o env \<Rightarrow> string \<Rightarrow> string \<Rightarrow> 'o node \<Rightarrow> panic + (error option \<times> 'o node)" where
  "Unsubscribe env user ch n =
     (if user = [] then Inr (Some ErrBadRequest, n)
      else case (if ch \<noteq> [] then ChannelOpts n ch else Inr None) of
          Inl p \<Rightarrow> Inl p
        | Inr ok \<Rightarrow>
            if ch \<noteq> [] \<and> ok = None then Inr (Some ErrNamespaceNotFound, n)
            else (let (err, n1) = unsubscribeUser env user ch n in
              if err \<noteq> None then Inr (Some ErrInternalServerError, n1)
              else (let (err2, n2) = pubUnsubscribe env user ch n1 in
                if err2 \<noteq> None then Inr (Some ErrInternalServerError, n2)
                else Inr (None, n2))))"

definition Disconnect :: "'o env \<Rightarrow> string \<Rightarrow> bool \<Rightarrow> 'o node \<Rightarrow> error option \<times> 'o node" where
  "Disconnect env user reconnect n =
     (if user = [] then (Some ErrBadRequest, n)
      else (let (err, n1) = disconnectUser env user reconnect n in
        if err \<noteq> None then (Some ErrInternalServerError, n1)
        else (let (err2, n2) = pubDisconnect env user reconnect n1 in
          if err2 \<noteq> None then (Some ErrInternalServerError, n2)
          else (None, n2))))"

section \<open>Sequences of operations\<close>

text \<open>\<open>shutdownTimes env k n\<close> calls \<^verbatim>\<open>Shutdown\<close> \<open>k\<close> times in a row and collects the results.\<close>

fun shutdownTimes :: "'o env \<Rightarrow> nat \<Rightarrow> 'o node \<Rightarrow> panic + (error option list \<times> 'o node)" where
  "shutdownTimes env 0 n = Inr ([], n)"
| "shutdownTimes env (Suc k) n =
     (case Shutdown env n of
        Inl p \<Rightarrow> Inl p
      | Inr (r, n1) \<Rightarrow>
          (case shutdownTimes env k n1 of
             Inl p \<Rightarrow> Inl p
           | Inr (rs, n2) \<Rightarrow> Inr (r # rs, n2)))"

text \<open>A sequence of subscription operations, run one after the other on the node.\<close>

datatype subOp = Add string client | Remove string client

fun applySubOp :: "'o env \<Rightarrow> subOp \<Rightarrow> 'o node \<Rightarrow> error option \<times> 'o node" where
  "applySubOp env (Add ch c) n = AddSubscription env ch c n"
| "applySubOp env (Remove ch c) n = RemoveSubscription env ch c n"

fun runSubOps :: "'o env \<Rightarrow> subOp list \<Rightarrow> 'o node \<Rightarrow> 'o node" where
  "runSubOps env [] n = n"
| "runSubOps env (op # ops) n = runSubOps env ops (snd (applySubOp env op n))"

fun hubCallOf :: "subOp \<Rightarrow> 'o call" where
  "hubCallOf (Add ch c) = HubAddSub ch c"
| "hubCallOf (Remove ch c) = HubRemoveSub ch c"

fun isHubSubCall :: "'o call \<Rightarrow> bool" where
  "isHubSubCall (HubAddSub ch c) = True"
| "isHubSubCall (HubRemoveSub ch c) = True"
| "isHubSubCall x = False"

text \<open>
  Subscription parity as a property of a stretch of trace \<open>calls\<close> that follows the trace
  \<open>pre\<close>: a hub call that reported the first subscriber of a channel (or that the channel
  became empty) with no error is followed at once by the engine's subscribe (or
  unsubscribe) for that channel, and the engine is subscribed or unsubscribed nowhere else.
\<close>

fun parity :: "'o env \<Rightarrow> 'o call list \<Rightarrow> 'o call list \<Rightarrow> bool" where
  "parity env pre [] = True"
| "parity env pre (HubAddSub ch c # calls) =
     (if hubAddSub env pre ch c = (True, None)
      then (case calls of
              EngineSubscribe ch' # calls' \<Rightarrow>
                ch' = ch \<and> parity env (pre @ [HubAddSub ch c, EngineSubscribe ch']) calls'
            | _ \<Rightarrow> False)
      else parity env (pre @ [HubAddSub ch c]) calls)"
| "parity env pre (HubRemoveSub ch c # calls) =
     (if hubRemoveSub env pre ch c = (True, None)
      then (case calls of
              EngineUnsubscribe ch' # calls' \<Rightarrow>
                ch' = ch \<and> parity env (pre @ [HubRemoveSub ch c, EngineUnsubscribe ch']) calls'
            | _ \<Rightarrow> False)
      else parity env (pre @ [HubRemoveSub ch c]) calls)"
| "parity env pre (EngineSubscribe ch # calls) = False"
| "parity env pre (EngineUnsubscribe ch # calls) = False"
| "parity env pre (x # calls) = parity env (pre @ [x]) calls"

section \<open>An example cluster\<close>

text \<open>
  A configuration with the usual prefix and boundary and one namespace, \<open>public\<close>, and an
  environment whose answers follow the trace: a client is subscribed to its initial
  channels less the ones it has left, the hub reports the first subscriber of a channel
  and the channel becoming empty from the subscriptions it was asked to add and remove,
  and leaving the channel \<open>stuck\<close> fails. The codec writes a payload as the user, a bar
  and the channel.
\<close>

definition exampleConfig :: "nat Config" where
  "exampleConfig =
     \<lparr>PrivateChannelPrefix = ''$'', NamespaceChannelBoundary = '':'',
      channelOpts = (\<lambda>ns. if ns = [] \<or> ns = ''public'' then Some 0 else None)\<rparr>"

definition exampleNode :: "string \<Rightarrow> nat node" where
  "exampleNode name =
     \<lparr>uid = name, config = exampleConfig, shutdown = False, shutdownCh = False, trace = []\<rparr>"

fun subscribers :: "nat call list \<Rightarrow> string \<Rightarrow> client list \<Rightarrow> client list" where
  "subscribers [] ch acc = acc"
| "subscribers (HubAddSub ch' c # tr) ch acc =
     subscribers tr ch (if ch' = ch \<and> c \<noteq> [] \<and> c \<notin> set acc then acc @ [c] else acc)"
| "subscribers (HubRemoveSub ch' c # tr) ch acc =
     subscribers tr ch (if ch' = ch then removeAll c acc else acc)"
| "subscribers (x # tr) ch acc = subscribers tr ch acc"

definition initialChannels :: "client \<Rightarrow> string list" where
  "initialChannels c =
     (if c = ''c1'' then [''room'', ''other'']
      else if c = ''c2'' then [''room'']
      else if c = ''c3'' then [''room'', ''stuck'', ''other'']
      else if c = ''c4'' then [''room'']
      else [])"

definition exampleEnv :: "nat env" where
  "exampleEnv =
     \<lparr>decodeNode = (\<lambda>tr p. Inl (ErrOther ''malformed'')),
      decodeUnsubscribe = (\<lambda>tr p.
        Inr \<lparr>User = takeWhile (\<lambda>x. x \<noteq> CHR ''|'') p,
             Channel = drop 1 (dropWhile (\<lambda>x. x \<noteq> CHR ''|'') p)\<rparr>),
      decodeDisconnect = (\<lambda>tr p. Inr \<lparr>DisconnectUser = takeWhile (\<lambda>x. x \<noteq> CHR ''|'') p\<rparr>),
      encodeUnsubscribe = (\<lambda>tr x. (User x @ ''|'' @ Channel x, None)),
      encodeDisconnect = (\<lambda>tr x. (DisconnectUser x @ ''|'', None)),
      hubAddSub = (\<lambda>tr ch c.
        if c = [] then (False, Some (ErrOther ''no client''))
        else (subscribers tr ch [] = [], None)),
      hubRemoveSub = (\<lambda>tr ch c.
        if c = [] then (False, Some (ErrOther ''no client''))
        else (subscribers tr ch [] \<noteq> [] \<and> removeAll c (subscribers tr ch []) = [], None)),
      hubUserConnections = (\<lambda>tr user.
        if user = ''u'' then [''c1'', ''c2'']
        else if user = ''w'' then [''c3'', ''c4'']
        else []),
      hubShutdown = (\<lambda>tr. None),
      clientChannels = (\<lambda>tr c. filter (\<lambda>ch. ClientUnsubscribe c ch \<notin> set tr) (initialChannels c)),
      clientUnsubscribe = (\<lambda>tr c ch. if ch = ''stuck'' then Some (ErrOther ''stuck'') else None),
      nuidNext = (\<lambda>tr. ''5XA0BQ1Z0YY7Q4HQ8CY2D1''),
      enginePublish = (\<lambda>tr ch pub opts. None),
      enginePublishControl = (\<lambda>tr cmd. None),
      engineSubscribe = (\<lambda>tr ch. None),
      engineUnsubscribe = (\<lambda>tr ch. None)\<rparr>"

section \<open>Channel parsing\<close>

lemma HasPrefix_append:
  "length sep \<le> length x \<Longrightarrow> HasPrefix (x @ rest) sep = HasPrefix x sep"
  by (simp add: HasPrefix_def)

lemma Index_append_rest:
  "Index (ns @ sep) sep = Some (length ns) \<Longrightarrow> sep \<noteq> [] \<Longrightarrow>
   Index (ns @ sep @ rest) sep = Some (length ns)"
proof (induction ns)
  case Nil
  then show ?case by (cases sep) (simp_all add: HasPrefix_def)
next
  case (Cons a ns)
  have len: "length sep \<le> length ((a # ns) @ sep)" by simp
  have eq: "HasPrefix ((a # ns) @ sep @ rest) sep = HasPrefix ((a # ns) @ sep) sep"
    using HasPrefix_append [OF len, of rest] by simp
  from Cons.prems(1) have np: "\<not> HasPrefix ((a # ns) @ sep) sep"
    by (auto split: if_splits)
  with Cons.prems(1) have "Index (ns @ sep) sep = Some (length ns)"
    by auto
  with Cons.IH Cons.prems(2) have "Index (ns @ sep @ rest) sep = Some (length ns)" by simp
  with np eq show ?case by simp
qed

lemma SplitN_first:
  assumes "sep \<noteq> []" and "Index (ns @ sep) sep = Some (length ns)"
  shows "SplitN (ns @ sep @ rest) sep 2 = [ns, rest]"
proof -
  have i: "Index (ns @ sep @ rest) sep = Some (length ns)"
    using Index_append_rest [OF assms(2) assms(1)] .
  have "genSplitLoop (ns @ sep @ rest) sep (Suc 0) = [ns, rest]"
    using i by simp
  then show ?thesis using assms(1) by (simp add: SplitN_def numeral_2_eq_2)
qed

text \<open>
  With a non-empty boundary \<^verbatim>\<open>SplitN\<close> always gives a first piece, so the namespace
  and the options of every channel are computed without a panic. With an empty boundary
  and a channel that is exactly the private prefix the split has no piece at all, and
  reading the first one panics.
\<close>

lemma genSplitLoop_not_Nil: "genSplitLoop s sep k \<noteq> []"
  by (cases k) (simp_all split: option.splits)

lemma namespaceName_returns:
  "NamespaceChannelBoundary (config n) \<noteq> [] \<Longrightarrow> \<exists>ns. namespaceName n ch = Inr ns"
proof -
  assume b: "NamespaceChannelBoundary (config n) \<noteq> []"
  let ?t = "TrimPrefix ch (PrivateChannelPrefix (config n))"
  obtain p ps where "SplitN ?t (NamespaceChannelBoundary (config n)) 2 = p # ps"
    using b genSplitLoop_not_Nil [of ?t "NamespaceChannelBoundary (config n)" 1]
    by (cases "SplitN ?t (NamespaceChannelBoundary (config n)) 2") (simp_all add: SplitN_def)
  then show ?thesis by (simp add: namespaceName_def Let_def)
qed

lemma ChannelOpts_returns:
  "NamespaceChannelBoundary (config n) \<noteq> [] \<Longrightarrow> \<exists>ok. ChannelOpts n ch = Inr ok"
  using namespaceName_returns [of n ch] by (auto simp: ChannelOpts_def)

lemma namespaceName_panics:
  "namespaceName
     ((exampleNode ''n1'')\<lparr>config := exampleConfig\<lparr>NamespaceChannelBoundary := []\<rparr>\<rparr>) ''$''
     = Inl IndexOutOfRange"
  by (simp add: namespaceName_def exampleNode_def exampleConfig_def TrimPrefix_def HasPrefix_def
      Contains_def SplitN_def explode_def RuneCountInString_def)

text \<open>
  Claim C9, as amended. The claim as written fails when the namespace itself contains
  the boundary: the name is cut at the first occurrence. It holds when the boundary is
  not empty and its first occurrence in \<open>ns\<close> followed by the boundary is the one at the
  end of \<open>ns\<close>: then, for a channel \<open>ns + boundary + "foo"\<close> that does not start with the
  private prefix, \<open>namespaceName\<close> returns \<open>ns\<close>.
\<close>

theorem namespaceName_round_trip:
  assumes "NamespaceChannelBoundary (config n) \<noteq> []"
    and "Index (ns @ NamespaceChannelBoundary (config n)) (NamespaceChannelBoundary (config n))
           = Some (length ns)"
    and "\<not> HasPrefix (ns @ NamespaceChannelBoundary (config n) @ ''foo'')
             (PrivateChannelPrefix (config n))"
  shows "namespaceName n (ns @ NamespaceChannelBoundary (config n) @ ''foo'') = Inr ns"
proof -
  let ?b = "NamespaceChannelBoundary (config n)"
  let ?ch = "ns @ ?b @ ''foo''"
  have t: "TrimPrefix ?ch (PrivateChannelPrefix (config n)) = ?ch"
    using assms(3) by (simp add: TrimPrefix_def)
  have i: "Index ?ch ?b = Some (length ns)"
    using Index_append_rest [OF assms(2) assms(1)] .
  have s: "SplitN ?ch ?b 2 = [ns, ''foo'']"
    using SplitN_first [OF assms(1) assms(2)] .
  show ?thesis
    unfolding namespaceName_def Let_def t using i s by (simp add: Contains_def)
qed

text \<open>The amended claim at the namespace \<open>public\<close> of the example configuration.\<close>

theorem namespaceName_round_trip_witness:
  "NamespaceChannelBoundary (config (exampleNode ''n1'')) \<noteq> []
   \<and> Index (''public'' @ NamespaceChannelBoundary (config (exampleNode ''n1'')))
        (NamespaceChannelBoundary (config (exampleNode ''n1''))) = Some (length ''public'')
   \<and> \<not> HasPrefix (''public'' @ NamespaceChannelBoundary (config (exampleNode ''n1'')) @ ''foo'')
          (PrivateChannelPrefix (config (exampleNode ''n1'')))
   \<and> namespaceName (exampleNode ''n1'') ''public:foo'' = Inr ''public''"
proof -
  let ?n = "exampleNode ''n1''"
  have a: "NamespaceChannelBoundary (config ?n) \<noteq> []"
    by (simp add: exampleNode_def exampleConfig_def)
  have b: "Index (''public'' @ NamespaceChannelBoundary (config ?n)) (NamespaceChannelBoundary (config ?n))
             = Some (length ''public'')"
    by (simp add: exampleNode_def exampleConfig_def HasPrefix_def)
  have c: "\<not> HasPrefix (''public'' @ NamespaceChannelBoundary (config ?n) @ ''foo'')
               (PrivateChannelPrefix (config ?n))"
    by (simp add: exampleNode_def exampleConfig_def HasPrefix_def)
  have d: "''public'' @ NamespaceChannelBoundary (config ?n) @ ''foo'' = ''public:foo''"
    by (simp add: exampleNode_def exampleConfig_def)
  show ?thesis using a b c namespaceName_round_trip [OF a b c] unfolding d by simp
qed

text \<open>
  Claim C9 as written is false: with the boundary \<open>:\<close> and the namespace \<open>a:b\<close>, the
  channel \<open>a:b:foo\<close> does not start with the private prefix \<open>$\<close>, and its namespace
  name is \<open>a\<close>, not \<open>a:b\<close>.
\<close>

theorem namespaceName_round_trip_counterexample:
  "\<not> HasPrefix (''a:b'' @ NamespaceChannelBoundary (config (exampleNode ''n1'')) @ ''foo'')
        (PrivateChannelPrefix (config (exampleNode ''n1'')))
   \<and> namespaceName (exampleNode ''n1'')
        (''a:b'' @ NamespaceChannelBoundary (config (exampleNode ''n1'')) @ ''foo'') = Inr ''a''
   \<and> namespaceName (exampleNode ''n1'')
        (''a:b'' @ NamespaceChannelBoundary (config (exampleNode ''n1'')) @ ''foo'') \<noteq> Inr ''a:b''"
  by (simp add: exampleNode_def exampleConfig_def namespaceName_def TrimPrefix_def
      HasPrefix_def Contains_def SplitN_def)

section \<open>Control commands of the node itself\<close>

text \<open>
  Claim C6. A control command whose uid is the uid of the receiving node is answered with
  success, and all it leaves behind is the increment of the counter of received control
  commands: the fields of the node are unchanged, and no decoder, registry, hub or client
  is called.
\<close>

theorem HandleControl_own_command:
  "CmdUID cmd = uid n \<Longrightarrow>
   HandleControl env cmd n =
     (None, n\<lparr>trace := trace n @ [CountersInc ''node_num_control_received'']\<rparr>)"
  by (simp add: HandleControl_def invoke_def Let_def)

theorem HandleControl_own_command_witness:
  "CmdUID \<lparr>CmdUID = ''n1'', Method = ''unsubscribe'', Params = ''u|''\<rparr> = uid (exampleNode ''n1'')
   \<and> HandleControl exampleEnv \<lparr>CmdUID = ''n1'', Method = ''unsubscribe'', Params = ''u|''\<rparr>
        (exampleNode ''n1'')
       = (None, (exampleNode ''n1'')\<lparr>trace := [CountersInc ''node_num_control_received'']\<rparr>)"
proof -
  have h: "CmdUID \<lparr>CmdUID = ''n1'', Method = ''unsubscribe'', Params = ''u|''\<rparr>
             = uid (exampleNode ''n1'')"
    by (simp add: exampleNode_def)
  show ?thesis
    using h HandleControl_own_command [OF h, of exampleEnv] by (simp add: exampleNode_def)
qed

section \<open>Shutdown\<close>

lemma shutdownTimes_done:
  "shutdown n \<Longrightarrow> shutdownTimes env k n = Inr (replicate k None, n)"
  by (induction k) (simp_all add: Shutdown_def)

text \<open>
  Claim C7. On a node that is not shut down, with its shutdown channel open, any number
  \<open>k + 1\<close> of calls of \<^verbatim>\<open>Shutdown\<close> in a row ends in the state one call ends in: the flag
  set, the channel closed (no call panics, so it was closed once), the hub shut down by
  exactly one call. The first call returns what the hub returned, every later call
  returns success and changes nothing.
\<close>

theorem Shutdown_idempotent:
  assumes "\<not> shutdown n" and "\<not> shutdownCh n"
  shows "shutdownTimes env (Suc k) n =
           Inr (hubShutdown env (trace n) # replicate k None,
                n\<lparr>shutdown := True, shutdownCh := True, trace := trace n @ [HubShutdown]\<rparr>)"
proof -
  let ?n1 = "n\<lparr>shutdown := True, shutdownCh := True, trace := trace n @ [HubShutdown]\<rparr>"
  have first: "Shutdown env n = Inr (hubShutdown env (trace n), ?n1)"
    using assms by (simp add: Shutdown_def invoke_def Let_def)
  have "shutdown ?n1" by simp
  then have rest: "shutdownTimes env k ?n1 = Inr (replicate k None, ?n1)"
    by (rule shutdownTimes_done)
  show ?thesis using first rest by simp
qed

theorem Shutdown_idempotent_witness:
  "\<not> shutdown (exampleNode ''n1'') \<and> \<not> shutdownCh (exampleNode ''n1'')
   \<and> shutdownTimes exampleEnv 3 (exampleNode ''n1'') =
       Inr ([None, None, None],
            (exampleNode ''n1'')\<lparr>shutdown := True, shutdownCh := True, trace := [HubShutdown]\<rparr>)"
proof -
  have a: "\<not> shutdown (exampleNode ''n1'')" by (simp add: exampleNode_def)
  have b: "\<not> shutdownCh (exampleNode ''n1'')" by (simp add: exampleNode_def)
  have c: "(3::nat) = Suc 2" by simp
  show ?thesis
    using a b Shutdown_idempotent [OF a b, of exampleEnv 2] unfolding c
    by (simp add: exampleNode_def exampleEnv_def numeral_2_eq_2)
qed

section \<open>Publishing\<close>


lemma ex_unknown: "ChannelOpts (exampleNode ''n1'') ''x:room'' = Inr None"
  by (simp add: ChannelOpts_def namespaceName_def exampleNode_def exampleConfig_def
      TrimPrefix_def HasPrefix_def Contains_def SplitN_def)



text \<open>
  Claim C4. When the options of the channel do not resolve (\<^verbatim>\<open>ChannelOpts\<close> answers
  \<open>ok = false\<close>), \<^verbatim>\<open>Publish\<close> without options returns a future resolved to
  \<open>ErrNamespaceNotFound\<close> and leaves the publication and the node as they were: no
  counter, no id, no engine call. With options given, the outcome is the same future,
  publication and trace under every configuration, and never a panic: the namespace is
  not resolved.
\<close>

theorem Publish_namespace_not_found:
  "(ChannelOpts n ch = Inr None \<longrightarrow>
      Publish env ch pub None n = Inr (Some ErrNamespaceNotFound, pub, n))
   \<and> (\<exists>fut pub' tr'. \<forall>cfg.
        Publish env ch pub (Some given) (n\<lparr>config := cfg\<rparr>)
          = Inr (fut, pub', n\<lparr>config := cfg, trace := tr'\<rparr>))"
proof
  show "ChannelOpts n ch = Inr None \<longrightarrow>
      Publish env ch pub None n = Inr (Some ErrNamespaceNotFound, pub, n)"
    by (simp add: Publish_def makeErrChan_def)
next
  show "\<exists>fut pub' tr'. \<forall>cfg.
        Publish env ch pub (Some given) (n\<lparr>config := cfg\<rparr>)
          = Inr (fut, pub', n\<lparr>config := cfg, trace := tr'\<rparr>)"
  proof -
    let ?tr1 = "trace n @ [CountersInc ''node_num_publication_sent'']"
    let ?pub1 = "if UID pub = [] then pub\<lparr>UID := nuidNext env ?tr1\<rparr> else pub"
    let ?tr2 = "if UID pub = [] then ?tr1 @ [NuidNext] else ?tr1"
    have "\<forall>cfg. Publish env ch pub (Some given) (n\<lparr>config := cfg\<rparr>)
            = Inr (enginePublish env ?tr2 ch ?pub1 given, ?pub1,
                   n\<lparr>config := cfg, trace := ?tr2 @ [EnginePublish ch ?pub1 given]\<rparr>)"
      by (simp add: Publish_def invoke_def Let_def)
    then show ?thesis by blast
  qed
qed

theorem Publish_namespace_not_found_witness:
  "ChannelOpts (exampleNode ''n1'') ''x:room'' = Inr None
   \<and> Publish exampleEnv ''x:room'' \<lparr>UID = [], Data = ''x''\<rparr> None (exampleNode ''n1'')
       = Inr (Some ErrNamespaceNotFound, \<lparr>UID = [], Data = ''x''\<rparr>, exampleNode ''n1'')"
  using ex_unknown Publish_namespace_not_found [of "exampleNode ''n1''" "''x:room''" exampleEnv "\<lparr>UID = [], Data = ''x''\<rparr>" 0]
  by simp

section \<open>Cluster-wide unsubscribe\<close>

lemma pubUnsubscribe_trace:
  "pubUnsubscribe env user ch n =
     (enginePublishControl env
        (trace n @ [EncodeUnsubscribe \<lparr>User = user, Channel = []\<rparr>, CountersInc ''node_num_control_sent''])
        \<lparr>CmdUID = uid n, Method = ''unsubscribe'',
         Params = fst (encodeUnsubscribe env (trace n) \<lparr>User = user, Channel = []\<rparr>)\<rparr>,
      n\<lparr>trace := trace n @ [EncodeUnsubscribe \<lparr>User = user, Channel = []\<rparr>,
           CountersInc ''node_num_control_sent'',
           EnginePublishControl \<lparr>CmdUID = uid n, Method = ''unsubscribe'',
             Params = fst (encodeUnsubscribe env (trace n) \<lparr>User = user, Channel = []\<rparr>)\<rparr>]\<rparr>)"
  by (simp add: pubUnsubscribe_def publishControl_def invoke_def Let_def)

lemma ex_room: "ChannelOpts (exampleNode ''n1'') ''room'' = Inr (Some 0)"
  by (simp add: ChannelOpts_def namespaceName_def exampleNode_def exampleConfig_def
      TrimPrefix_def HasPrefix_def Contains_def)

lemma ex_unsubscribe_w:
  "unsubscribeUser exampleEnv ''w'' [] (exampleNode ''n1'')
     = (Some (ErrOther ''stuck''),
        (exampleNode ''n1'')\<lparr>trace := [HubUserConnections ''w'', ClientChannels ''c3'',
           ClientUnsubscribe ''c3'' ''room'', ClientUnsubscribe ''c3'' ''stuck'']\<rparr>)"
  by (simp add: unsubscribeUser_def channelsOf_def invoke_def Let_def exampleNode_def
      exampleEnv_def initialChannels_def)

lemma ex_unsubscribe_u:
  "unsubscribeUser exampleEnv ''u'' ''room'' (exampleNode ''n1'')
     = (None, (exampleNode ''n1'')\<lparr>trace := [HubUserConnections ''u'',
           ClientUnsubscribe ''c1'' ''room'', ClientUnsubscribe ''c2'' ''room'']\<rparr>)"
  by (simp add: unsubscribeUser_def channelsOf_def invoke_def Let_def exampleNode_def
      exampleEnv_def)

text \<open>
  The cases of \<^verbatim>\<open>Unsubscribe\<close>, all of them. With an empty user it returns
  \<open>ErrBadRequest\<close> and leaves the node as it was. With a user and a non-empty channel, a
  panic while the options are resolved is the outcome, and options that do not resolve
  give \<open>ErrNamespaceNotFound\<close> with the node as it was, so nothing was unsubscribed and
  nothing published. With a user and a channel that is empty or resolves, the user is
  unsubscribed locally first: if that fails the result is \<open>ErrInternalServerError\<close> in
  the state the local step left, and nothing is published; if it succeeds, the payload
  with the user is encoded and the command with the uid of the node, the method
  \<open>unsubscribe\<close> and the encoded payload is published on top of the state the local
  step left, and the result is \<open>ErrInternalServerError\<close> exactly when the engine
  reported an error. In both cases what the local step did stays.
\<close>

lemma Unsubscribe_cases:
  "Unsubscribe env [] ch n = Inr (Some ErrBadRequest, n)
   \<and> (user \<noteq> [] \<and> ch \<noteq> [] \<and> ChannelOpts n ch = Inl p \<longrightarrow>
        Unsubscribe env user ch n = Inl p)
   \<and> (user \<noteq> [] \<and> ch \<noteq> [] \<and> ChannelOpts n ch = Inr None \<longrightarrow>
        Unsubscribe env user ch n = Inr (Some ErrNamespaceNotFound, n))
   \<and> (user \<noteq> [] \<and> (ch = [] \<or> (\<exists>opts. ChannelOpts n ch = Inr (Some opts))) \<longrightarrow>
        (\<forall>e1 n1. unsubscribeUser env user ch n = (e1, n1) \<longrightarrow>
           (e1 \<noteq> None \<longrightarrow> Unsubscribe env user ch n = Inr (Some ErrInternalServerError, n1))
         \<and> (e1 = None \<longrightarrow>
               (let payload = \<lparr>User = user, Channel = []\<rparr>;
                    cmd = \<lparr>CmdUID = uid n1, Method = ''unsubscribe'',
                           Params = fst (encodeUnsubscribe env (trace n1) payload)\<rparr>;
                    sent = trace n1 @ [EncodeUnsubscribe payload, CountersInc ''node_num_control_sent'']
                in Unsubscribe env user ch n =
                     Inr (if enginePublishControl env sent cmd \<noteq> None
                          then Some ErrInternalServerError else None,
                          n1\<lparr>trace := sent @ [EnginePublishControl cmd]\<rparr>)))))"
proof (intro conjI impI allI)
  show "Unsubscribe env [] ch n = Inr (Some ErrBadRequest, n)"
    by (simp add: Unsubscribe_def)
next
  assume "user \<noteq> [] \<and> ch \<noteq> [] \<and> ChannelOpts n ch = Inl p"
  then show "Unsubscribe env user ch n = Inl p"
    by (simp add: Unsubscribe_def)
next
  assume "user \<noteq> [] \<and> ch \<noteq> [] \<and> ChannelOpts n ch = Inr None"
  then show "Unsubscribe env user ch n = Inr (Some ErrNamespaceNotFound, n)"
    by (simp add: Unsubscribe_def)
next
  fix e1 n1
  assume h: "user \<noteq> [] \<and> (ch = [] \<or> (\<exists>opts. ChannelOpts n ch = Inr (Some opts)))"
    and u: "unsubscribeUser env user ch n = (e1, n1)" and e: "e1 \<noteq> None"
  from h u e show "Unsubscribe env user ch n = Inr (Some ErrInternalServerError, n1)"
    by (auto simp: Unsubscribe_def)
next
  fix e1 n1
  assume h: "user \<noteq> [] \<and> (ch = [] \<or> (\<exists>opts. ChannelOpts n ch = Inr (Some opts)))"
    and u: "unsubscribeUser env user ch n = (e1, n1)" and e: "e1 = None"
  from h u e show "let payload = \<lparr>User = user, Channel = []\<rparr>;
                    cmd = \<lparr>CmdUID = uid n1, Method = ''unsubscribe'',
                           Params = fst (encodeUnsubscribe env (trace n1) payload)\<rparr>;
                    sent = trace n1 @ [EncodeUnsubscribe payload, CountersInc ''node_num_control_sent'']
                in Unsubscribe env user ch n =
                     Inr (if enginePublishControl env sent cmd \<noteq> None
                          then Some ErrInternalServerError else None,
                          n1\<lparr>trace := sent @ [EnginePublishControl cmd]\<rparr>)"
    by (auto simp: Unsubscribe_def pubUnsubscribe_trace Let_def)
qed

lemma Unsubscribe_cases_example:
  "Unsubscribe exampleEnv ''u'' ''x:room'' (exampleNode ''n1'')
       = Inr (Some ErrNamespaceNotFound, exampleNode ''n1'')
   \<and> Unsubscribe exampleEnv ''w'' [] (exampleNode ''n1'')
       = Inr (Some ErrInternalServerError,
              (exampleNode ''n1'')\<lparr>trace := [HubUserConnections ''w'', ClientChannels ''c3'',
                 ClientUnsubscribe ''c3'' ''room'', ClientUnsubscribe ''c3'' ''stuck'']\<rparr>)
   \<and> Unsubscribe exampleEnv ''u'' ''room'' (exampleNode ''n1'')
       = Inr (None,
              (exampleNode ''n1'')\<lparr>trace := [HubUserConnections ''u'',
                 ClientUnsubscribe ''c1'' ''room'', ClientUnsubscribe ''c2'' ''room'',
                 EncodeUnsubscribe \<lparr>User = ''u'', Channel = []\<rparr>,
                 CountersInc ''node_num_control_sent'',
                 EnginePublishControl
                   \<lparr>CmdUID = ''n1'', Method = ''unsubscribe'', Params = ''u|''\<rparr>]\<rparr>)"
proof -
  let ?n = "exampleNode ''n1''"
  have h1: "''u'' \<noteq> [] \<and> ''x:room'' \<noteq> [] \<and> ChannelOpts ?n ''x:room'' = Inr None"
    by (simp add: ex_unknown)
  have c1: "Unsubscribe exampleEnv ''u'' ''x:room'' ?n = Inr (Some ErrNamespaceNotFound, ?n)"
    using h1 Unsubscribe_cases [of exampleEnv "''x:room''" ?n "''u''"] by blast
  have h2: "''w'' \<noteq> [] \<and> ([] = ([] :: string) \<or> (\<exists>opts. ChannelOpts ?n [] = Inr (Some opts)))"
    by simp
  have c2: "Unsubscribe exampleEnv ''w'' [] ?n
       = Inr (Some ErrInternalServerError,
              ?n\<lparr>trace := [HubUserConnections ''w'', ClientChannels ''c3'',
                 ClientUnsubscribe ''c3'' ''room'', ClientUnsubscribe ''c3'' ''stuck'']\<rparr>)"
    using h2 ex_unsubscribe_w Unsubscribe_cases [of exampleEnv "[]" ?n "''w''"] by blast
  have h3: "''u'' \<noteq> [] \<and> (''room'' = [] \<or> (\<exists>opts. ChannelOpts ?n ''room'' = Inr (Some opts)))"
    by (simp add: ex_room)
  have c3: "Unsubscribe exampleEnv ''u'' ''room'' ?n
       = Inr (None,
              ?n\<lparr>trace := [HubUserConnections ''u'',
                 ClientUnsubscribe ''c1'' ''room'', ClientUnsubscribe ''c2'' ''room'',
                 EncodeUnsubscribe \<lparr>User = ''u'', Channel = []\<rparr>,
                 CountersInc ''node_num_control_sent'',
                 EnginePublishControl
                   \<lparr>CmdUID = ''n1'', Method = ''unsubscribe'', Params = ''u|''\<rparr>]\<rparr>)"
    using h3 ex_unsubscribe_u Unsubscribe_cases [of exampleEnv "''room''" ?n "''u''"]
    by (simp add: Let_def exampleEnv_def exampleNode_def)
  show ?thesis using c1 c2 c3 by blast
qed

text \<open>
  Claim C5 does not hold of the code on every node. On a node whose namespace boundary is
  the empty string and whose private prefix is \<open>$\<close>, unsubscribing user \<open>u\<close> from the
  channel \<open>$\<close> neither returns an error nor unsubscribes anyone: resolving the options
  of the channel panics with an index out of range, and so does \<^verbatim>\<open>Unsubscribe\<close>. On
  the example node, with the boundary \<open>:\<close>, the same call unsubscribes locally and
  publishes the command.
\<close>

theorem Unsubscribe_panics:
  "ChannelOpts ((exampleNode ''n1'')\<lparr>config := exampleConfig\<lparr>NamespaceChannelBoundary := []\<rparr>\<rparr>) ''$''
     = Inl IndexOutOfRange
   \<and> Unsubscribe exampleEnv ''u'' ''$''
        ((exampleNode ''n1'')\<lparr>config := exampleConfig\<lparr>NamespaceChannelBoundary := []\<rparr>\<rparr>)
     = Inl IndexOutOfRange
   \<and> Unsubscribe exampleEnv ''u'' ''$'' (exampleNode ''n1'')
     = Inr (None,
            (exampleNode ''n1'')\<lparr>trace := [HubUserConnections ''u'',
               ClientUnsubscribe ''c1'' ''$'', ClientUnsubscribe ''c2'' ''$'',
               EncodeUnsubscribe \<lparr>User = ''u'', Channel = []\<rparr>,
               CountersInc ''node_num_control_sent'',
               EnginePublishControl
                 \<lparr>CmdUID = ''n1'', Method = ''unsubscribe'', Params = ''u|''\<rparr>]\<rparr>)"
proof (intro conjI)
  let ?n = "(exampleNode ''n1'')\<lparr>config := exampleConfig\<lparr>NamespaceChannelBoundary := []\<rparr>\<rparr>"
  show c: "ChannelOpts ?n ''$'' = Inl IndexOutOfRange"
    by (simp add: ChannelOpts_def namespaceName_panics)
  show "Unsubscribe exampleEnv ''u'' ''$'' ?n = Inl IndexOutOfRange"
    by (simp add: Unsubscribe_def c)
next
  have r: "ChannelOpts (exampleNode ''n1'') ''$'' = Inr (Some 0)"
    by (simp add: ChannelOpts_def namespaceName_def exampleNode_def exampleConfig_def
        TrimPrefix_def HasPrefix_def Contains_def)
  have u: "unsubscribeUser exampleEnv ''u'' ''$'' (exampleNode ''n1'')
     = (None, (exampleNode ''n1'')\<lparr>trace := [HubUserConnections ''u'',
           ClientUnsubscribe ''c1'' ''$'', ClientUnsubscribe ''c2'' ''$'']\<rparr>)"
    by (simp add: unsubscribeUser_def channelsOf_def invoke_def Let_def exampleNode_def
        exampleEnv_def)
  show "Unsubscribe exampleEnv ''u'' ''$'' (exampleNode ''n1'')
     = Inr (None,
            (exampleNode ''n1'')\<lparr>trace := [HubUserConnections ''u'',
               ClientUnsubscribe ''c1'' ''$'', ClientUnsubscribe ''c2'' ''$'',
               EncodeUnsubscribe \<lparr>User = ''u'', Channel = []\<rparr>,
               CountersInc ''node_num_control_sent'',
               EnginePublishControl
                 \<lparr>CmdUID = ''n1'', Method = ''unsubscribe'', Params = ''u|''\<rparr>]\<rparr>)"
    by (simp add: Unsubscribe_def r u pubUnsubscribe_trace)
       (simp add: exampleEnv_def exampleNode_def)
qed

lemma unsubscribeChannels_stop:
  "unsubscribeChannels env c chs1 n = (None, n1) \<Longrightarrow>
   clientUnsubscribe env (trace n1) c x = Some e \<Longrightarrow>
   unsubscribeChannels env c (chs1 @ x # chs2) n = (Some e, invoke (ClientUnsubscribe c x) n1)"
proof (induction chs1 arbitrary: n)
  case Nil
  then show ?case by (simp add: Let_def)
next
  case (Cons a chs1)
  then show ?case by (simp add: Let_def split: if_splits)
qed

lemma unsubscribeConnections_stop:
  "unsubscribeConnections env ch cs1 n = (None, n1) \<Longrightarrow>
   channelsOf env ch c n1 = (chs1 @ x # chs2, n2) \<Longrightarrow>
   unsubscribeChannels env c chs1 n2 = (None, n3) \<Longrightarrow>
   clientUnsubscribe env (trace n3) c x = Some e \<Longrightarrow>
   unsubscribeConnections env ch (cs1 @ c # cs2) n = (Some e, invoke (ClientUnsubscribe c x) n3)"
proof (induction cs1 arbitrary: n)
  case Nil
  then show ?case
    using unsubscribeChannels_stop [of env c chs1 n2 n3 x e chs2] by (simp add: Let_def)
next
  case (Cons a cs1)
  obtain chans m1 where ch: "channelsOf env ch a n = (chans, m1)" by (cases "channelsOf env ch a n")
  obtain err m2 where un: "unsubscribeChannels env a chans m1 = (err, m2)"
    by (cases "unsubscribeChannels env a chans m1")
  from Cons.prems(1) ch un have ok: "err = None" and rest: "unsubscribeConnections env ch cs1 m2 = (None, n1)"
    by (auto simp: Let_def split: if_splits)
  have "unsubscribeConnections env ch (cs1 @ c # cs2) m2 = (Some e, invoke (ClientUnsubscribe c x) n3)"
    using Cons.IH [OF rest Cons.prems(2) Cons.prems(3) Cons.prems(4)] .
  with ch un ok show ?case by (simp add: Let_def)
qed

text \<open>
  Claim C10. Local unsubscription stops at the first failure. Let the connections of the
  user be \<open>cs1\<close>, then \<open>c\<close>, then \<open>cs2\<close>, let the connections \<open>cs1\<close> be handled without
  error, let the channels to leave on \<open>c\<close> be \<open>chs1\<close>, then \<open>x\<close>, then \<open>chs2\<close>, let
  \<open>c\<close> leave the channels \<open>chs1\<close> without error, and let leaving \<open>x\<close> fail with \<open>e\<close>.
  Then \<^verbatim>\<open>unsubscribeUser\<close> returns \<open>e\<close>, and the failed call is the last thing it did:
  no call is made for the channels \<open>chs2\<close> or the connections \<open>cs2\<close>, whatever they are.
\<close>

theorem unsubscribeUser_aborts:
  assumes "hubUserConnections env (trace n) user = cs1 @ c # cs2"
    and "unsubscribeConnections env ch cs1 (invoke (HubUserConnections user) n) = (None, n1)"
    and "channelsOf env ch c n1 = (chs1 @ x # chs2, n2)"
    and "unsubscribeChannels env c chs1 n2 = (None, n3)"
    and "clientUnsubscribe env (trace n3) c x = Some e"
  shows "unsubscribeUser env user ch n = (Some e, n3\<lparr>trace := trace n3 @ [ClientUnsubscribe c x]\<rparr>)"
  using unsubscribeConnections_stop [OF assms(2) assms(3) assms(4) assms(5), of cs2] assms(1)
  by (simp add: unsubscribeUser_def Let_def invoke_def)

theorem unsubscribeUser_aborts_witness:
  "hubUserConnections exampleEnv (trace (exampleNode ''n1'')) ''w'' = [] @ ''c3'' # [''c4'']
   \<and> unsubscribeConnections exampleEnv [] [] (invoke (HubUserConnections ''w'') (exampleNode ''n1''))
        = (None, (exampleNode ''n1'')\<lparr>trace := [HubUserConnections ''w'']\<rparr>)
   \<and> channelsOf exampleEnv [] ''c3'' ((exampleNode ''n1'')\<lparr>trace := [HubUserConnections ''w'']\<rparr>)
        = ([''room''] @ ''stuck'' # [''other''],
           (exampleNode ''n1'')\<lparr>trace := [HubUserConnections ''w'', ClientChannels ''c3'']\<rparr>)
   \<and> unsubscribeChannels exampleEnv ''c3'' [''room'']
          ((exampleNode ''n1'')\<lparr>trace := [HubUserConnections ''w'', ClientChannels ''c3'']\<rparr>)
        = (None, (exampleNode ''n1'')\<lparr>trace := [HubUserConnections ''w'', ClientChannels ''c3'',
                    ClientUnsubscribe ''c3'' ''room'']\<rparr>)
   \<and> clientUnsubscribe exampleEnv
          (trace ((exampleNode ''n1'')\<lparr>trace := [HubUserConnections ''w'', ClientChannels ''c3'',
                    ClientUnsubscribe ''c3'' ''room'']\<rparr>)) ''c3'' ''stuck'' = Some (ErrOther ''stuck'')
   \<and> unsubscribeUser exampleEnv ''w'' [] (exampleNode ''n1'')
        = (Some (ErrOther ''stuck''),
           (exampleNode ''n1'')\<lparr>trace := [HubUserConnections ''w'', ClientChannels ''c3'',
              ClientUnsubscribe ''c3'' ''room'', ClientUnsubscribe ''c3'' ''stuck'']\<rparr>)"
proof -
  let ?n = "exampleNode ''n1''"
  let ?n1 = "?n\<lparr>trace := [HubUserConnections ''w'']\<rparr>"
  let ?n2 = "?n\<lparr>trace := [HubUserConnections ''w'', ClientChannels ''c3'']\<rparr>"
  let ?n3 = "?n\<lparr>trace := [HubUserConnections ''w'', ClientChannels ''c3'', ClientUnsubscribe ''c3'' ''room'']\<rparr>"
  have a: "hubUserConnections exampleEnv (trace ?n) ''w'' = [] @ ''c3'' # [''c4'']"
    by (simp add: exampleEnv_def)
  have b: "unsubscribeConnections exampleEnv [] [] (invoke (HubUserConnections ''w'') ?n) = (None, ?n1)"
    by (simp add: invoke_def exampleNode_def)
  have c: "channelsOf exampleEnv [] ''c3'' ?n1 = ([''room''] @ ''stuck'' # [''other''], ?n2)"
    by (simp add: channelsOf_def invoke_def exampleNode_def exampleEnv_def initialChannels_def)
  have d: "unsubscribeChannels exampleEnv ''c3'' [''room''] ?n2 = (None, ?n3)"
    by (simp add: invoke_def exampleNode_def exampleEnv_def Let_def)
  have e: "clientUnsubscribe exampleEnv (trace ?n3) ''c3'' ''stuck'' = Some (ErrOther ''stuck'')"
    by (simp add: exampleEnv_def)
  show ?thesis
    using a b c d e unsubscribeUser_aborts [OF a b c d e] by (simp add: exampleNode_def)
qed

lemma pubUnsubscribe_ignores_channel:
  "pubUnsubscribe env user ch n = pubUnsubscribe env user ch' n"
  by (simp add: pubUnsubscribe_def)

text \<open>
  Claim C1 does not hold of the code. \<^verbatim>\<open>pubUnsubscribe\<close> never puts the channel into
  the payload. In the example cluster, node \<open>n1\<close> is asked to unsubscribe user \<open>u\<close> from
  \<open>room\<close>: it leaves \<open>room\<close> locally and publishes one command with method
  \<open>unsubscribe\<close> whose payload decodes to user \<open>u\<close> and the empty channel, although the
  codec carries a channel when it is given one. Node \<open>n2\<close>, handling that command,
  unsubscribes the connections of \<open>u\<close> from every channel, \<open>other\<close> included.
\<close>

theorem Unsubscribe_peer_leaves_all_channels:
  "Unsubscribe exampleEnv ''u'' ''room'' (exampleNode ''n1'')
     = Inr (None,
            (exampleNode ''n1'')\<lparr>trace := [HubUserConnections ''u'',
               ClientUnsubscribe ''c1'' ''room'', ClientUnsubscribe ''c2'' ''room'',
               EncodeUnsubscribe \<lparr>User = ''u'', Channel = []\<rparr>,
               CountersInc ''node_num_control_sent'',
               EnginePublishControl \<lparr>CmdUID = ''n1'', Method = ''unsubscribe'', Params = ''u|''\<rparr>]\<rparr>)
   \<and> decodeUnsubscribe exampleEnv [] (fst (encodeUnsubscribe exampleEnv [] \<lparr>User = ''u'', Channel = ''room''\<rparr>))
       = Inr \<lparr>User = ''u'', Channel = ''room''\<rparr>
   \<and> decodeUnsubscribe exampleEnv [] ''u|'' = Inr \<lparr>User = ''u'', Channel = []\<rparr>
   \<and> HandleControl exampleEnv \<lparr>CmdUID = ''n1'', Method = ''unsubscribe'', Params = ''u|''\<rparr>
        (exampleNode ''n2'')
       = (None,
          (exampleNode ''n2'')\<lparr>trace := [CountersInc ''node_num_control_received'',
             DecodeUnsubscribe ''u|'', HubUserConnections ''u'', ClientChannels ''c1'',
             ClientUnsubscribe ''c1'' ''room'', ClientUnsubscribe ''c1'' ''other'',
             ClientChannels ''c2'', ClientUnsubscribe ''c2'' ''room'']\<rparr>)"
proof (intro conjI)
  show "Unsubscribe exampleEnv ''u'' ''room'' (exampleNode ''n1'')
     = Inr (None,
            (exampleNode ''n1'')\<lparr>trace := [HubUserConnections ''u'',
               ClientUnsubscribe ''c1'' ''room'', ClientUnsubscribe ''c2'' ''room'',
               EncodeUnsubscribe \<lparr>User = ''u'', Channel = []\<rparr>,
               CountersInc ''node_num_control_sent'',
               EnginePublishControl \<lparr>CmdUID = ''n1'', Method = ''unsubscribe'', Params = ''u|''\<rparr>]\<rparr>)"
    by (simp add: Unsubscribe_def ex_room ex_unsubscribe_u pubUnsubscribe_trace)
       (simp add: exampleEnv_def exampleNode_def)
next
  show "decodeUnsubscribe exampleEnv [] (fst (encodeUnsubscribe exampleEnv [] \<lparr>User = ''u'', Channel = ''room''\<rparr>))
       = Inr \<lparr>User = ''u'', Channel = ''room''\<rparr>"
    by (simp add: exampleEnv_def)
next
  show "decodeUnsubscribe exampleEnv [] ''u|'' = Inr \<lparr>User = ''u'', Channel = []\<rparr>"
    by (simp add: exampleEnv_def)
next
  show "HandleControl exampleEnv \<lparr>CmdUID = ''n1'', Method = ''unsubscribe'', Params = ''u|''\<rparr>
        (exampleNode ''n2'')
       = (None,
          (exampleNode ''n2'')\<lparr>trace := [CountersInc ''node_num_control_received'',
             DecodeUnsubscribe ''u|'', HubUserConnections ''u'', ClientChannels ''c1'',
             ClientUnsubscribe ''c1'' ''room'', ClientUnsubscribe ''c1'' ''other'',
             ClientChannels ''c2'', ClientUnsubscribe ''c2'' ''room'']\<rparr>)"
    by (simp add: HandleControl_def unsubscribeUser_def channelsOf_def invoke_def Let_def
        exampleNode_def exampleEnv_def initialChannels_def)
qed

section \<open>Cluster-wide disconnect\<close>

text \<open>
  Claim C2 does not hold of the code. In the example cluster, node \<open>n1\<close> is asked to
  disconnect user \<open>u\<close> with the reconnect flag set: it closes the local connections with
  that flag and publishes one command, whose method is \<open>unsubscribe\<close>, not
  \<open>disconnect\<close>. Node \<open>n2\<close>, handling that command, takes the unsubscribe branch and
  closes no connection. Had the command carried the method \<open>disconnect\<close>, \<open>n2\<close> would
  have closed the connections with the reconnect flag cleared: the payload has no field
  for it.
\<close>

theorem Disconnect_published_as_unsubscribe:
  "Disconnect exampleEnv ''u'' True (exampleNode ''n1'')
     = (None,
        (exampleNode ''n1'')\<lparr>trace := [HubUserConnections ''u'',
           GoClientClose ''c1'' \<lparr>Reason = ''disconnect'', Reconnect = True\<rparr>,
           GoClientClose ''c2'' \<lparr>Reason = ''disconnect'', Reconnect = True\<rparr>,
           EncodeDisconnect \<lparr>DisconnectUser = ''u''\<rparr>,
           CountersInc ''node_num_control_sent'',
           EnginePublishControl \<lparr>CmdUID = ''n1'', Method = ''unsubscribe'', Params = ''u|''\<rparr>]\<rparr>)
   \<and> HandleControl exampleEnv \<lparr>CmdUID = ''n1'', Method = ''unsubscribe'', Params = ''u|''\<rparr>
        (exampleNode ''n2'')
       = (None,
          (exampleNode ''n2'')\<lparr>trace := [CountersInc ''node_num_control_received'',
             DecodeUnsubscribe ''u|'', HubUserConnections ''u'', ClientChannels ''c1'',
             ClientUnsubscribe ''c1'' ''room'', ClientUnsubscribe ''c1'' ''other'',
             ClientChannels ''c2'', ClientUnsubscribe ''c2'' ''room'']\<rparr>)
   \<and> HandleControl exampleEnv \<lparr>CmdUID = ''n1'', Method = ''disconnect'', Params = ''u|''\<rparr>
        (exampleNode ''n2'')
       = (None,
          (exampleNode ''n2'')\<lparr>trace := [CountersInc ''node_num_control_received'',
             DecodeDisconnect ''u|'', HubUserConnections ''u'',
             GoClientClose ''c1'' \<lparr>Reason = ''disconnect'', Reconnect = False\<rparr>,
             GoClientClose ''c2'' \<lparr>Reason = ''disconnect'', Reconnect = False\<rparr>]\<rparr>)"
proof (intro conjI)
  show "Disconnect exampleEnv ''u'' True (exampleNode ''n1'')
     = (None,
        (exampleNode ''n1'')\<lparr>trace := [HubUserConnections ''u'',
           GoClientClose ''c1'' \<lparr>Reason = ''disconnect'', Reconnect = True\<rparr>,
           GoClientClose ''c2'' \<lparr>Reason = ''disconnect'', Reconnect = True\<rparr>,
           EncodeDisconnect \<lparr>DisconnectUser = ''u''\<rparr>,
           CountersInc ''node_num_control_sent'',
           EnginePublishControl \<lparr>CmdUID = ''n1'', Method = ''unsubscribe'', Params = ''u|''\<rparr>]\<rparr>)"
    by (simp add: Disconnect_def disconnectUser_def pubDisconnect_def publishControl_def
        invoke_def Let_def exampleNode_def exampleEnv_def)
next
  show "HandleControl exampleEnv \<lparr>CmdUID = ''n1'', Method = ''unsubscribe'', Params = ''u|''\<rparr>
        (exampleNode ''n2'')
       = (None,
          (exampleNode ''n2'')\<lparr>trace := [CountersInc ''node_num_control_received'',
             DecodeUnsubscribe ''u|'', HubUserConnections ''u'', ClientChannels ''c1'',
             ClientUnsubscribe ''c1'' ''room'', ClientUnsubscribe ''c1'' ''other'',
             ClientChannels ''c2'', ClientUnsubscribe ''c2'' ''room'']\<rparr>)"
    by (simp add: HandleControl_def unsubscribeUser_def channelsOf_def invoke_def Let_def
        exampleNode_def exampleEnv_def initialChannels_def)
next
  show "HandleControl exampleEnv \<lparr>CmdUID = ''n1'', Method = ''disconnect'', Params = ''u|''\<rparr>
        (exampleNode ''n2'')
       = (None,
          (exampleNode ''n2'')\<lparr>trace := [CountersInc ''node_num_control_received'',
             DecodeDisconnect ''u|'', HubUserConnections ''u'',
             GoClientClose ''c1'' \<lparr>Reason = ''disconnect'', Reconnect = False\<rparr>,
             GoClientClose ''c2'' \<lparr>Reason = ''disconnect'', Reconnect = False\<rparr>]\<rparr>)"
    by (simp add: HandleControl_def disconnectUser_def invoke_def Let_def
        exampleNode_def exampleEnv_def)
qed

section \<open>Subscriptions and the engine\<close>

lemma parity_append:
  "parity env pre a \<Longrightarrow> parity env (pre @ a) b \<Longrightarrow> parity env pre (a @ b)"
proof (induction env pre a rule: parity.induct)
  case (1 env pre)
  then show ?case by simp
next
  case (2 env pre ch c calls)
  then show ?case by (auto split: if_splits list.splits call.splits)
next
  case (3 env pre ch c calls)
  then show ?case by (auto split: if_splits list.splits call.splits)
qed simp_all

lemma AddSubscription_calls:
  "\<exists>calls. trace (snd (AddSubscription env ch c n)) = trace n @ calls
     \<and> filter isHubSubCall calls = [HubAddSub ch c] \<and> parity env (trace n) calls"
proof -
  obtain first err where r: "hubAddSub env (trace n @ [CountersInc ''node_num_add_client_sub'']) ch c = (first, err)"
    by (cases "hubAddSub env (trace n @ [CountersInc ''node_num_add_client_sub'']) ch c")
  let ?calls = "[CountersInc ''node_num_add_client_sub'', HubAddSub ch c]
                 @ (if first \<and> err = None then [EngineSubscribe ch] else [])"
  have "trace (snd (AddSubscription env ch c n)) = trace n @ ?calls"
    using r by (simp add: AddSubscription_def invoke_def Let_def)
  moreover have "filter isHubSubCall ?calls = [HubAddSub ch c]" by simp
  moreover have "parity env (trace n) ?calls" using r by auto
  ultimately show ?thesis by blast
qed

lemma RemoveSubscription_calls:
  "\<exists>calls. trace (snd (RemoveSubscription env ch c n)) = trace n @ calls
     \<and> filter isHubSubCall calls = [HubRemoveSub ch c] \<and> parity env (trace n) calls"
proof -
  obtain empty err where r: "hubRemoveSub env (trace n @ [CountersInc ''node_num_remove_client_sub'']) ch c = (empty, err)"
    by (cases "hubRemoveSub env (trace n @ [CountersInc ''node_num_remove_client_sub'']) ch c")
  let ?calls = "[CountersInc ''node_num_remove_client_sub'', HubRemoveSub ch c]
                 @ (if empty \<and> err = None then [EngineUnsubscribe ch] else [])"
  have "trace (snd (RemoveSubscription env ch c n)) = trace n @ ?calls"
    using r by (simp add: RemoveSubscription_def invoke_def Let_def)
  moreover have "filter isHubSubCall ?calls = [HubRemoveSub ch c]" by simp
  moreover have "parity env (trace n) ?calls" using r by auto
  ultimately show ?thesis by blast
qed

lemma applySubOp_calls:
  "\<exists>calls. trace (snd (applySubOp env op n)) = trace n @ calls
     \<and> filter isHubSubCall calls = [hubCallOf op] \<and> parity env (trace n) calls"
  by (cases op) (simp_all add: AddSubscription_calls RemoveSubscription_calls)

lemma ex_run: "trace (runSubOps exampleEnv [Add ''news'' ''A'', Add ''news'' ''B'', Remove ''news'' ''A'', Remove ''news'' ''B''] (exampleNode ''n1''))
 = [CountersInc ''node_num_add_client_sub'', HubAddSub ''news'' ''A'',
       EngineSubscribe ''news'', CountersInc ''node_num_add_client_sub'',
       HubAddSub ''news'' ''B'', CountersInc ''node_num_remove_client_sub'',
       HubRemoveSub ''news'' ''A'',
       CountersInc ''node_num_remove_client_sub'',
       HubRemoveSub ''news'' ''B'', EngineUnsubscribe ''news'']"
  by (simp add: AddSubscription_def RemoveSubscription_def invoke_def Let_def exampleNode_def exampleEnv_def)

text \<open>
  Claim C8. Whatever sequence of \<^verbatim>\<open>AddSubscription\<close> and \<^verbatim>\<open>RemoveSubscription\<close>
  is run, the calls it adds to the trace ask the hub once per operation, in order, and
  satisfy subscription parity: the engine is subscribed to a channel exactly once right
  after each hub call that reported the first subscriber of that channel with no error,
  unsubscribed exactly once right after each hub call that reported the channel empty
  with no error, and never otherwise, so not after a hub error.
\<close>

theorem subscription_parity:
  "\<exists>calls. trace (runSubOps env ops n) = trace n @ calls
     \<and> filter isHubSubCall calls = map hubCallOf ops \<and> parity env (trace n) calls"
proof (induction ops arbitrary: n)
  case Nil
  then show ?case by simp
next
  case (Cons op ops)
  obtain a where a: "trace (snd (applySubOp env op n)) = trace n @ a"
      "filter isHubSubCall a = [hubCallOf op]" "parity env (trace n) a"
    using applySubOp_calls [of env op n] by blast
  obtain b where b: "trace (runSubOps env ops (snd (applySubOp env op n))) = trace (snd (applySubOp env op n)) @ b"
      "filter isHubSubCall b = map hubCallOf ops" "parity env (trace (snd (applySubOp env op n))) b"
    using Cons.IH [of "snd (applySubOp env op n)"] by blast
  have "trace (runSubOps env (op # ops) n) = trace n @ (a @ b)" using a(1) b(1) by simp
  moreover have "filter isHubSubCall (a @ b) = map hubCallOf (op # ops)" using a(2) b(2) by simp
  moreover have "parity env (trace n) (a @ b)" using a(1) a(3) b(3) by (simp add: parity_append)
  ultimately show ?case by blast
qed

theorem subscription_parity_witness:
  "trace (runSubOps exampleEnv
       [Add ''news'' ''A'', Add ''news'' ''B'', Remove ''news'' ''A'', Remove ''news'' ''B'']
       (exampleNode ''n1''))
     = [CountersInc ''node_num_add_client_sub'', HubAddSub ''news'' ''A'', EngineSubscribe ''news'',
        CountersInc ''node_num_add_client_sub'', HubAddSub ''news'' ''B'',
        CountersInc ''node_num_remove_client_sub'', HubRemoveSub ''news'' ''A'',
        CountersInc ''node_num_remove_client_sub'', HubRemoveSub ''news'' ''B'',
        EngineUnsubscribe ''news'']
   \<and> parity exampleEnv []
       [CountersInc ''node_num_add_client_sub'', HubAddSub ''news'' ''A'', EngineSubscribe ''news'',
        CountersInc ''node_num_add_client_sub'', HubAddSub ''news'' ''B'',
        CountersInc ''node_num_remove_client_sub'', HubRemoveSub ''news'' ''A'',
        CountersInc ''node_num_remove_client_sub'', HubRemoveSub ''news'' ''B'',
        EngineUnsubscribe ''news'']"
proof -
  have t: "trace (exampleNode ''n1'') = []" by (simp add: exampleNode_def)
  show ?thesis
    using subscription_parity [of exampleEnv
        "[Add ''news'' ''A'', Add ''news'' ''B'', Remove ''news'' ''A'', Remove ''news'' ''B'']"
        "exampleNode ''n1''"]
    unfolding ex_run t by simp
qed

end
